theory Spec2Isabelle
  imports Complex_Main
begin

section \<open>Numbers, errors and the data of the engine\<close>

text \<open>
  The engine of \<^verbatim>\<open>PokerGame.js\<close> keeps all money in cents as JavaScript numbers.
  The model takes them as exact rationals: \<^verbatim>\<open>/\<close> is the exact quotient (it is not an
  integer division), and \<^verbatim>\<open>%\<close> is the remainder of the truncated quotient, which is
  \<^verbatim>\<open>NaN\<close> for a zero divisor. Rounding of doubles is not modelled; sums, differences and
  halves of cent amounts are exact in a double as well.
\<close>

definition js_trunc :: "rat \<Rightarrow> int" where
  "js_trunc x = (if 0 \<le> x then \<lfloor>x\<rfloor> else \<lceil>x\<rceil>)"

text \<open>\<^verbatim>\<open>a % b\<close>; \<open>None\<close> is \<^verbatim>\<open>NaN\<close>.\<close>

definition js_rem :: "rat \<Rightarrow> rat \<Rightarrow> rat option" where
  "js_rem a b = (if b = 0 then None else Some (a - b * of_int (js_trunc (a / b))))"

text \<open>
  An array index that went through \<^verbatim>\<open>idx %= length\<close>: a position, or \<^verbatim>\<open>NaN\<close> once the
  length was zero.
\<close>

datatype idx = Idx nat | NaNIdx

text \<open>
  What the engine throws. \<open>NotInitialized\<close> is the error of \<^verbatim>\<open>throwIfNotInitialized\<close>;
  \<open>CurrentPlayerCannot i v\<close> is the message
  \<^verbatim>\<open>Current player (id: i) cannot v\<close> of \<^verbatim>\<open>callCurrentPlayerAction\<close>;
  \<open>TypeError\<close> is the runtime's error for a property read on \<^verbatim>\<open>undefined\<close>.
\<close>

datatype verb = CannotFold | CannotCall | CannotRaise | CannotRaiseBy rat | CannotCheck

datatype error =
    NotInitialized
  | CurrentPlayerCannot nat verb
  | IllegalArgument
  | RoundNotEnded
  | ActionRoundNotEnded
  | DealerRoundNotEnded
  | CannotAtThisPoint string
  | TypeError

datatype suit = Spades | Clubs | Diamonds | Hearts

type_synonym card = "nat \<times> suit"

text \<open>
  A rank object of the hand ranker: what \<^verbatim>\<open>bestHandRank\<close> computed, and the
  \<^verbatim>\<open>playerIndex\<close> the engine writes into it.
\<close>

record 'r handRank =
  rankOf :: 'r
  playerIndex :: nat

text \<open>The fields of a player that the engine reads and writes.\<close>

record 'r player =
  player_id :: nat
  stack :: rat
  potCommitment :: rat
  inGame :: bool
  isAllIn :: bool
  allowRaise :: bool
  actionState :: string
  cards :: "card option list"
  showdownRank :: "'r handRank option"

text \<open>
  The fields of a pot that the engine reads and writes. \<open>potentialWinners\<close> is a
  \<^verbatim>\<open>Set\<close> of seat indices, kept in insertion order; \<open>history\<close> is a \<^verbatim>\<open>Map\<close>.
\<close>

record 'r pot =
  "open" :: bool
  prevARsAmount :: rat
  currARAmount :: rat
  playerCommitment :: rat
  history :: "(nat \<times> rat) list"
  potentialWinners :: "nat list"
  winHandRanks :: "'r handRank list"

text \<open>
  The state of a \<^verbatim>\<open>PokerGame\<close>. \<open>players\<close> holds the seats \<open>0, \<dots>, n - 1\<close>, all
  occupied. The game's own field \<^verbatim>\<open>winHandRanks\<close> is only ever assigned \<^verbatim>\<open>null\<close> and
  is left out.
\<close>

record 'r game =
  initialized :: bool
  buyIn :: rat
  smallBlind :: rat
  bigBlind :: rat
  players :: "'r player list"
  dealerIdx :: idx
  smallBlindIdx :: nat
  bigBlindIdx :: nat
  turnIdx :: idx
  numTurnIncrements :: nat
  pots :: "'r pot list"
  actionRound :: int
  board :: "card option list"
  deck :: "card list"
  minRaise :: rat
  previousBet :: rat
  allowCheck :: bool

text \<open>
  Modelled from the spec: the constructor of \<^verbatim>\<open>Pot\<close> (file \<^verbatim>\<open>Pot.js\<close> is missing).
  A fresh pot is "a single empty open pot": open, no money, no commitments, nobody
  recorded yet.
\<close>

definition new_Pot :: "'r pot" where
  "new_Pot = \<lparr> open = True, prevARsAmount = 0, currARAmount = 0, playerCommitment = 0,
     history = [], potentialWinners = [], winHandRanks = [] \<rparr>"

definition new_PokerGame :: "'r game" where
  "new_PokerGame = \<lparr> initialized = False, buyIn = - 1, smallBlind = - 1, bigBlind = - 1,
     players = [], dealerIdx = Idx 0, smallBlindIdx = 0, bigBlindIdx = 0, turnIdx = Idx 0,
     numTurnIncrements = 0, pots = [new_Pot], actionRound = - 1,
     board = [None, None, None, None, None], deck = [], minRaise = 0, previousBet = 0,
     allowCheck = False \<rparr>"

section \<open>Setting up the game\<close>

definition throwIfNotInitialized :: "'r game \<Rightarrow> error + unit" where
  "throwIfNotInitialized g = (if \<not> initialized g then Inl NotInitialized else Inr ())"

text \<open>
  The three setters report success as a boolean. \<open>MAX_BUYIN_IN_CENTS\<close> is a constant of
  the missing \<^verbatim>\<open>constants.js\<close> and is a parameter here.
\<close>

definition setBuyIn :: "rat \<Rightarrow> rat \<Rightarrow> 'r game \<Rightarrow> bool \<times> 'r game" where
  "setBuyIn MAX_BUYIN_IN_CENTS val g =
     (if val < 1 \<or> val > MAX_BUYIN_IN_CENTS then (False, g)
      else (True, g\<lparr>buyIn := val\<rparr>))"

definition setSmallBlind :: "rat \<Rightarrow> 'r game \<Rightarrow> bool \<times> 'r game" where
  "setSmallBlind val g =
     (if val \<le> 0 then (False, g)
      else if buyIn g = - 1 then (False, g)
      else if val > buyIn g / 20 then (False, g)
      else (True, g\<lparr>smallBlind := val, bigBlind := - 1\<rparr>))"

definition setBigBlind :: "rat \<Rightarrow> 'r game \<Rightarrow> bool \<times> 'r game" where
  "setBigBlind val g =
     (if smallBlind g = - 1 then (False, g)
      else if val < smallBlind g then (False, g)
      else if js_rem val (smallBlind g) \<noteq> Some 0 then (False, g)
      else if val > buyIn g / 20 then (False, g)
      else (True, g\<lparr>bigBlind := val, initialized := True\<rparr>))"

text \<open>
  A table set up the documented way: buy-in 200 dollars, blinds 1 and 2 dollars, with a
  limit of 1000 dollars on the buy-in.
\<close>

definition table_200_1_2 :: "nat game" where
  "table_200_1_2 =
     snd (setBigBlind 200 (snd (setSmallBlind 100 (snd (setBuyIn 100000 20000 new_PokerGame)))))"

section \<open>Seats and turns\<close>

text \<open>\<^verbatim>\<open>xs[i]\<close>: \<open>None\<close> is \<^verbatim>\<open>undefined\<close>.\<close>

definition js_nth :: "'a list \<Rightarrow> nat \<Rightarrow> 'a option" where
  "js_nth xs i = (if i < length xs then Some (xs ! i) else None)"

definition totalPlayers :: "'r game \<Rightarrow> nat" where
  "totalPlayers g = length (players g)"

definition numPlayersInGame :: "'r game \<Rightarrow> nat" where
  "numPlayersInGame g = foldl (\<lambda>acc player. if inGame player then acc + 1 else acc) 0 (players g)"

definition currentPlayer :: "'r game \<Rightarrow> 'r player option" where
  "currentPlayer g = (case turnIdx g of Idx i \<Rightarrow> js_nth (players g) i | NaNIdx \<Rightarrow> None)"






section \<open>Legality of the actions\<close>

definition canCurrentPlayerCheck :: "'r game \<Rightarrow> error + bool" where
  "canCurrentPlayerCheck g =
     (case throwIfNotInitialized g of Inl e \<Rightarrow> Inl e | Inr _ \<Rightarrow> Inr (allowCheck g))"

definition canCurrentPlayerCall :: "'r game \<Rightarrow> error + bool" where
  "canCurrentPlayerCall g =
     (case throwIfNotInitialized g of
        Inl e \<Rightarrow> Inl e
      | Inr _ \<Rightarrow>
          (let raiseCounter =
                 foldl (\<lambda>c p. if actionState p = ''raise'' \<or> actionState p = ''SB''
                                then c + 1 else c) (0::nat) (players g)
           in if raiseCounter = 0 then Inr False
              else (case currentPlayer g of
                      None \<Rightarrow> Inl TypeError
                    | Some p \<Rightarrow>
                        if actionState p = ''SB'' \<and> smallBlind g = bigBlind g then Inr False
                        else Inr True)))"

definition canCurrentPlayerRaise :: "'r game \<Rightarrow> error + bool" where
  "canCurrentPlayerRaise g =
     (case throwIfNotInitialized g of
        Inl e \<Rightarrow> Inl e
      | Inr _ \<Rightarrow> (case currentPlayer g of None \<Rightarrow> Inl TypeError | Some p \<Rightarrow> Inr (allowRaise p)))"

definition canCurrentPlayerRaiseBy :: "rat \<Rightarrow> 'r game \<Rightarrow> error + bool" where
  "canCurrentPlayerRaiseBy cents g =
     (case throwIfNotInitialized g of
        Inl e \<Rightarrow> Inl e
      | Inr _ \<Rightarrow>
          (case currentPlayer g of
             None \<Rightarrow> Inl TypeError
           | Some p \<Rightarrow>
               if \<not> allowRaise p then Inr False
               else if cents = stack p then Inr True
               else if js_rem cents (smallBlind g) \<noteq> Some 0
                       \<or> cents < previousBet g + minRaise g
                       \<or> cents > stack p + potCommitment p then Inr False
               else Inr True))"

text \<open>
  What the caller submits: the field \<^verbatim>\<open>playerAction\<close> of the argument, with
  \<^verbatim>\<open>raiseAmount\<close> for a raise; \<open>OtherAction\<close> is any other string.
\<close>

datatype playerAction = AllIn | Call | Raise rat | Fold | Check | OtherAction string

text \<open>
  The methods of the class \<^verbatim>\<open>Player\<close> (file missing) that apply an accepted action to
  the current player, to the pots and to the game. They are parameters.
\<close>

record 'r playerMethods =
  player_allIn :: "'r game \<Rightarrow> (error + unit) \<times> 'r game"
  player_call :: "'r game \<Rightarrow> (error + unit) \<times> 'r game"
  player_raise :: "rat \<Rightarrow> 'r game \<Rightarrow> (error + unit) \<times> 'r game"
  player_fold :: "'r game \<Rightarrow> (error + unit) \<times> 'r game"
  player_check :: "'r game \<Rightarrow> (error + unit) \<times> 'r game"

text \<open>
  A guard of \<^verbatim>\<open>callCurrentPlayerAction\<close> that failed: the message reads
  \<^verbatim>\<open>this.currentPlayer.id\<close>.
\<close>

definition cannot :: "verb \<Rightarrow> 'r game \<Rightarrow> (error + unit) \<times> 'r game" where
  "cannot v g =
     (case currentPlayer g of
        None \<Rightarrow> (Inl TypeError, g)
      | Some p \<Rightarrow> (Inl (CurrentPlayerCannot (player_id p) v), g))"

text \<open>A method called on \<^verbatim>\<open>this.currentPlayer\<close>.\<close>

definition onCurrentPlayer ::
  "('r game \<Rightarrow> (error + unit) \<times> 'r game) \<Rightarrow> 'r game \<Rightarrow> (error + unit) \<times> 'r game" where
  "onCurrentPlayer m g = (case currentPlayer g of None \<Rightarrow> (Inl TypeError, g) | Some _ \<Rightarrow> m g)"

fun callCurrentPlayerAction ::
  "'r playerMethods \<Rightarrow> playerAction \<Rightarrow> 'r game \<Rightarrow> (error + unit) \<times> 'r game" where
  "callCurrentPlayerAction M AllIn g =
     (case currentPlayer g of
        None \<Rightarrow> (Inl TypeError, g)
      | Some p \<Rightarrow> if \<not> inGame p then cannot CannotFold g else player_allIn M g)"
| "callCurrentPlayerAction M Call g =
     (case canCurrentPlayerCall g of
        Inl e \<Rightarrow> (Inl e, g)
      | Inr ok \<Rightarrow> if \<not> ok then cannot CannotCall g else onCurrentPlayer (player_call M) g)"
| "callCurrentPlayerAction M (Raise raiseAmount) g =
     (case canCurrentPlayerRaise g of
        Inl e \<Rightarrow> (Inl e, g)
      | Inr ok \<Rightarrow>
          if \<not> ok then cannot CannotRaise g
          else (case canCurrentPlayerRaiseBy raiseAmount g of
                  Inl e \<Rightarrow> (Inl e, g)
                | Inr ok' \<Rightarrow>
                    if \<not> ok' then cannot (CannotRaiseBy raiseAmount) g
                    else onCurrentPlayer (player_raise M raiseAmount) g))"
| "callCurrentPlayerAction M Fold g =
     (case currentPlayer g of
        None \<Rightarrow> (Inl TypeError, g)
      | Some p \<Rightarrow> if \<not> inGame p then cannot CannotFold g else player_fold M g)"
| "callCurrentPlayerAction M Check g =
     (case canCurrentPlayerCheck g of
        Inl e \<Rightarrow> (Inl e, g)
      | Inr ok \<Rightarrow> if \<not> ok then cannot CannotCheck g else onCurrentPlayer (player_check M) g)"
| "callCurrentPlayerAction M (OtherAction s) g = (Inl IllegalArgument, g)"

section \<open>Action rounds\<close>

text \<open>
  \<^verbatim>\<open>ACTION_ROUNDS\<close> is a table of the missing \<^verbatim>\<open>constants.js\<close>, and a parameter here:
  \<open>ACTION_ROUNDS i\<close> is \<^verbatim>\<open>ACTION_ROUNDS[i]\<close>, \<open>None\<close> for \<^verbatim>\<open>undefined\<close>.
\<close>

definition actionRoundStr :: "(int \<Rightarrow> string option) \<Rightarrow> 'r game \<Rightarrow> string option" where
  "actionRoundStr ACTION_ROUNDS g = ACTION_ROUNDS (actionRound g)"

definition validateInActionRound ::
  "(int \<Rightarrow> string option) \<Rightarrow> string \<Rightarrow> 'r game \<Rightarrow> error + unit" where
  "validateInActionRound ACTION_ROUNDS event g =
     (case throwIfNotInitialized g of
        Inl e \<Rightarrow> Inl e
      | Inr _ \<Rightarrow>
          if actionRoundStr ACTION_ROUNDS g \<noteq> Some event then Inl (CannotAtThisPoint event)
          else Inr ())"

definition validateNotInActionRound ::
  "(int \<Rightarrow> string option) \<Rightarrow> string \<Rightarrow> 'r game \<Rightarrow> error + unit" where
  "validateNotInActionRound ACTION_ROUNDS event g =
     (case throwIfNotInitialized g of
        Inl e \<Rightarrow> Inl e
      | Inr _ \<Rightarrow>
          if actionRoundStr ACTION_ROUNDS g = Some event then Inl (CannotAtThisPoint event)
          else Inr ())"

definition allInPlayersCounter :: "'r game \<Rightarrow> nat" where
  "allInPlayersCounter g = foldl (\<lambda>acc player. if isAllIn player then acc + 1 else acc) 0 (players g)"

text \<open>
  Modelled from the spec: the methods \<^verbatim>\<open>hasAllInPlayer\<close>,
  \<^verbatim>\<open>hasPlayerInPotentialWinners\<close> and \<^verbatim>\<open>playerIdxInPotentialWinners\<close> of the missing
  class \<^verbatim>\<open>Pot\<close>. A pot "has an all-in player" when its set of potential winners
  "contains an all-in player"; the other two test membership of a seat in that set.
\<close>

definition hasAllInPlayer :: "'r player list \<Rightarrow> 'r pot \<Rightarrow> bool" where
  "hasAllInPlayer ps pot =
     list_ex (\<lambda>i. case js_nth ps i of None \<Rightarrow> False | Some p \<Rightarrow> isAllIn p) (potentialWinners pot)"

definition hasPlayerInPotentialWinners :: "'r pot \<Rightarrow> nat \<Rightarrow> bool" where
  "hasPlayerInPotentialWinners pot i = (i \<in> set (potentialWinners pot))"

definition playerIdxInPotentialWinners :: "'r pot \<Rightarrow> nat \<Rightarrow> bool" where
  "playerIdxInPotentialWinners pot i = (i \<in> set (potentialWinners pot))"

text \<open>\<^verbatim>\<open>a && b\<close> and \<^verbatim>\<open>a || b\<close> where an operand may throw: the right one is only
  evaluated when the left one does not decide.\<close>

definition andAlso :: "error + bool \<Rightarrow> error + bool \<Rightarrow> error + bool" where
  "andAlso a b = (case a of Inl e \<Rightarrow> Inl e | Inr x \<Rightarrow> if x then b else Inr False)"

definition orElse :: "error + bool \<Rightarrow> error + bool \<Rightarrow> error + bool" where
  "orElse a b = (case a of Inl e \<Rightarrow> Inl e | Inr x \<Rightarrow> if x then Inr True else b)"

definition noRaiseScenarioCounter :: "'r game \<Rightarrow> nat" where
  "noRaiseScenarioCounter g =
     foldl (\<lambda>counter player.
        if isAllIn player \<and> (actionState player = ''call'' \<or> actionState player = '' '')
        then counter + 1
        else if actionState player = ''call'' \<and> \<not> isAllIn player then
          (if list_all (\<lambda>pot. hasPlayerInPotentialWinners pot (player_id player))
                (filter (\<lambda>pot. open pot) (pots g))
           then counter + 1 else counter)
        else if actionState player = ''check'' then
          (if list_all (\<lambda>player. actionState player = ''check'')
                (filter (\<lambda>player. inGame player) (players g))
           then counter + 1 else counter)
        else counter)
       0 (filter (\<lambda>player. inGame player) (players g))"

definition raiseScenarioCounter :: "'r game \<Rightarrow> nat" where
  "raiseScenarioCounter g =
     foldl (\<lambda>acc player. if actionState player = ''raise'' then acc + 1 else acc) 0
       (filter (\<lambda>player. inGame player) (players g))"

text \<open>\<^verbatim>\<open>this.players[i].actionState === tag\<close>.\<close>

definition tagIs :: "'r game \<Rightarrow> nat \<Rightarrow> string \<Rightarrow> error + bool" where
  "tagIs g i tag =
     (case js_nth (players g) i of None \<Rightarrow> Inl TypeError | Some p \<Rightarrow> Inr (actionState p = tag))"

definition preFlopActionRoundEnded :: "(int \<Rightarrow> string option) \<Rightarrow> 'r game \<Rightarrow> error + bool" where
  "preFlopActionRoundEnded ACTION_ROUNDS g =
     andAlso (Inr (actionRoundStr ACTION_ROUNDS g = Some ''pre-flop''))
       (orElse
          (andAlso (Inr (smallBlind g = bigBlind g))
          (andAlso (Inr (list_all (\<lambda>player. actionState player = ''call'')
                      (filter (\<lambda>player. inGame player \<and> player_id player \<noteq> bigBlindIdx g
                                  \<and> player_id player \<noteq> smallBlindIdx g) (players g))))
          (andAlso (tagIs g (smallBlindIdx g) ''check'')
                   (tagIs g (bigBlindIdx g) ''check''))))
          (andAlso (Inr (smallBlind g \<noteq> bigBlind g))
          (andAlso (Inr (list_all (\<lambda>player. actionState player = ''call'')
                      (filter (\<lambda>player. inGame player \<and> player_id player \<noteq> bigBlindIdx g)
                         (players g))))
                   (tagIs g (bigBlindIdx g) ''check''))))"

definition actionRoundEnded :: "(int \<Rightarrow> string option) \<Rightarrow> 'r game \<Rightarrow> error + bool" where
  "actionRoundEnded ACTION_ROUNDS g =
     orElse (preFlopActionRoundEnded ACTION_ROUNDS g)
    (orElse (Inr (noRaiseScenarioCounter g = numPlayersInGame g))
    (andAlso (Inr (raiseScenarioCounter g = 1))
       (case currentPlayer g of
          None \<Rightarrow> Inl TypeError
        | Some p \<Rightarrow> Inr (actionState p = ''raise''))))"

definition actionRoundEndedViaAllInScenario :: "'r game \<Rightarrow> error + bool" where
  "actionRoundEndedViaAllInScenario g =
     (case throwIfNotInitialized g of
        Inl e \<Rightarrow> Inl e
      | Inr _ \<Rightarrow>
          if allInPlayersCounter g = numPlayersInGame g then Inr True
          else if int (allInPlayersCounter g) = int (numPlayersInGame g) - 1 then
            (case find (\<lambda>player. inGame player \<and> \<not> isAllIn player) (players g) of
               None \<Rightarrow> if pots g = [] then Inr True else Inl TypeError
             | Some player \<Rightarrow>
                 Inr (list_all (\<lambda>pot. playerIdxInPotentialWinners pot (player_id player)) (pots g)))
          else Inr False)"

definition dealerRoundEnded :: "'r game \<Rightarrow> bool" where
  "dealerRoundEnded g =
     (int (foldl (\<lambda>outOfGame player.
              if actionState player = ''fold'' \<or> actionState player = [] then outOfGame + 1
              else outOfGame) (0::nat) (players g))
      = int (totalPlayers g) - 1)"

section \<open>Pots\<close>

definition organizePot :: "'r player list \<Rightarrow> 'r pot \<Rightarrow> 'r pot" where
  "organizePot ps pot =
     (pot\<lparr>open := (if hasAllInPlayer ps pot then False else open pot)\<rparr>)
        \<lparr>prevARsAmount := prevARsAmount pot + currARAmount pot, currARAmount := 0,
         playerCommitment := 0, history := []\<rparr>"

definition organizePotsAfterRoundEnded ::
  "(int \<Rightarrow> string option) \<Rightarrow> 'r game \<Rightarrow> (error + unit) \<times> 'r game" where
  "organizePotsAfterRoundEnded ACTION_ROUNDS g =
     (case orElse (Inr (dealerRoundEnded g))
             (orElse (actionRoundEndedViaAllInScenario g) (actionRoundEnded ACTION_ROUNDS g)) of
        Inl e \<Rightarrow> (Inl e, g)
      | Inr ended \<Rightarrow>
          if \<not> ended then (Inl RoundNotEnded, g)
          else (Inr (),
                g\<lparr>pots := map (\<lambda>pot. if open pot then organizePot (players g) pot else pot)
                             (pots g)\<rparr>))"

definition resetPots :: "'r game \<Rightarrow> 'r game" where
  "resetPots g = g\<lparr>pots := [new_Pot]\<rparr>"

section \<open>Settlement\<close>

text \<open>\<^verbatim>\<open>xs.find(f)\<close>, as the position of the element found.\<close>

fun findIndex :: "('a \<Rightarrow> bool) \<Rightarrow> 'a list \<Rightarrow> nat option" where
  "findIndex f [] = None"
| "findIndex f (x # xs) = (if f x then Some 0 else map_option Suc (findIndex f xs))"

record dealerRoundInfo =
  winnerIdx :: nat
  winnings_d :: rat

definition getDealerRoundInfoAndAssignWinnings ::
  "'r game \<Rightarrow> (error + dealerRoundInfo) \<times> 'r game" where
  "getDealerRoundInfoAndAssignWinnings g =
     (case throwIfNotInitialized g of
        Inl e \<Rightarrow> (Inl e, g)
      | Inr _ \<Rightarrow>
          if \<not> dealerRoundEnded g then (Inl DealerRoundNotEnded, g)
          else
            (let winnings = foldl (\<lambda>acc pot. acc + prevARsAmount pot) 0 (pots g) in
             case findIndex (\<lambda>player. inGame player) (players g) of
               None \<Rightarrow> (Inl TypeError, g)
             | Some w \<Rightarrow>
                 (let winner = (players g ! w)\<lparr>stack := stack (players g ! w) + winnings\<rparr> in
                  (Inr \<lparr>winnerIdx = player_id winner, winnings_d = winnings\<rparr>,
                   resetPots (g\<lparr>players := (players g)[w := winner]\<rparr>)))))"

text \<open>
  The two collaborators of the showdown, \<^verbatim>\<open>bestHandRank\<close> and \<^verbatim>\<open>pickBestHandRanks\<close> of
  the missing \<^verbatim>\<open>utils.js\<close>, are parameters: the first ranks seven cards, the second
  picks among the rank objects it is given (\<open>None\<close> for \<^verbatim>\<open>null\<close>).
\<close>

definition assignShowdownRanks ::
  "(card option list \<Rightarrow> 'r) \<Rightarrow> card option list \<Rightarrow> 'r player list \<Rightarrow> 'r player list" where
  "assignShowdownRanks bestHandRank brd ps =
     map (\<lambda>(idx, player).
            if inGame player
            then player\<lparr>showdownRank :=
                   Some \<lparr>rankOf = bestHandRank (brd @ cards player), playerIndex = idx\<rparr>\<rparr>
            else player)
       (zip [0..<length ps] ps)"

fun assignWinHandRanks ::
  "('r handRank option list \<Rightarrow> 'r handRank list) \<Rightarrow> 'r player list \<Rightarrow> 'r pot list
     \<Rightarrow> (error + unit) \<times> 'r pot list" where
  "assignWinHandRanks pickBestHandRanks ps [] = (Inr (), [])"
| "assignWinHandRanks pickBestHandRanks ps (pot # rest) =
     (if list_all (\<lambda>pIdx. pIdx < length ps) (potentialWinners pot) then
        (case assignWinHandRanks pickBestHandRanks ps rest of
           (r, rest') \<Rightarrow>
             (r, pot\<lparr>winHandRanks :=
                     pickBestHandRanks
                       (map (\<lambda>pIdx. showdownRank (ps ! pIdx)) (potentialWinners pot))\<rparr> # rest'))
      else (Inl TypeError, pot # rest))"

text \<open>The inner loop of the settlement: every winning rank's player gets the share.\<close>

fun creditWinners ::
  "rat \<Rightarrow> 'r handRank list \<Rightarrow> 'r player list \<Rightarrow> (error + nat list) \<times> 'r player list" where
  "creditWinners winnings [] ps = (Inr [], ps)"
| "creditWinners winnings (rank # ranks) ps =
     (if playerIndex rank < length ps then
        (case creditWinners winnings ranks
                (ps[playerIndex rank :=
                      (ps ! playerIndex rank)\<lparr>stack := stack (ps ! playerIndex rank) + winnings\<rparr>]) of
           (Inl e, ps') \<Rightarrow> (Inl e, ps')
         | (Inr ws, ps') \<Rightarrow> (Inr (playerIndex rank # ws), ps'))
      else (Inl TypeError, ps))"

text \<open>
  One entry of the showdown's result. \<open>winnings\<close> is \<open>None\<close> when the pot has no winning
  rank: the quotient by zero is \<^verbatim>\<open>Infinity\<close> or \<^verbatim>\<open>NaN\<close> then, and is added to no stack.
\<close>

record potResult =
  winnings :: "rat option"
  winners :: "nat list"

fun settlePots :: "'r pot list \<Rightarrow> 'r player list \<Rightarrow> (error + potResult list) \<times> 'r player list" where
  "settlePots [] ps = (Inr [], ps)"
| "settlePots (pot # rest) ps =
     (let share = prevARsAmount pot / of_nat (length (winHandRanks pot)) in
      case creditWinners share (winHandRanks pot) ps of
        (Inl e, ps') \<Rightarrow> (Inl e, ps')
      | (Inr ws, ps') \<Rightarrow>
          (case settlePots rest ps' of
             (Inl e, ps'') \<Rightarrow> (Inl e, ps'')
           | (Inr result, ps'') \<Rightarrow>
               (Inr (\<lparr>winnings = (if winHandRanks pot = [] then None else Some share),
                      winners = ws\<rparr> # result), ps'')))"

definition getShowdownInfoAndAssignWinnings ::
  "(int \<Rightarrow> string option) \<Rightarrow> (card option list \<Rightarrow> 'r)
     \<Rightarrow> ('r handRank option list \<Rightarrow> 'r handRank list)
     \<Rightarrow> 'r game \<Rightarrow> (error + potResult list) \<times> 'r game" where
  "getShowdownInfoAndAssignWinnings ACTION_ROUNDS bestHandRank pickBestHandRanks g =
     (case validateInActionRound ACTION_ROUNDS ''river'' g of
        Inl e \<Rightarrow> (Inl e, g)
      | Inr _ \<Rightarrow>
     (case actionRoundEndedViaAllInScenario g of
        Inl e \<Rightarrow> (Inl e, g)
      | Inr _ \<Rightarrow>
     (let ps1 = assignShowdownRanks bestHandRank (board g) (players g) in
      case assignWinHandRanks pickBestHandRanks ps1 (pots g) of
        (Inl e, pots1) \<Rightarrow> (Inl e, g\<lparr>players := ps1, pots := pots1\<rparr>)
      | (Inr _, pots1) \<Rightarrow>
          (case settlePots pots1 ps1 of
             (Inl e, ps2) \<Rightarrow> (Inl e, g\<lparr>players := ps2, pots := pots1\<rparr>)
           | (Inr result, ps2) \<Rightarrow> (Inr result, resetPots (g\<lparr>players := ps2, pots := pots1\<rparr>))))))"

section \<open>The next action round\<close>


section \<open>Chips on the table\<close>

definition totalChips :: "'r game \<Rightarrow> rat" where
  "totalChips g =
     sum_list (map stack (players g))
     + sum_list (map (\<lambda>pot. prevARsAmount pot + currARAmount pot) (pots g))"

section \<open>Sample tables\<close>

text \<open>A player at seat \<open>i\<close> with stack \<open>s\<close>: in the hand, allowed to raise, no tag yet.\<close>

definition seat :: "nat \<Rightarrow> rat \<Rightarrow> nat player" where
  "seat i s = \<lparr> player_id = i, stack = s, potCommitment = 0, inGame = True, isAllIn = False,
     allowRaise = True, actionState = [], cards = [None, None], showdownRank = None \<rparr>"

text \<open>
  Modelled from the spec: the table \<^verbatim>\<open>ACTION_ROUNDS\<close> of the missing \<^verbatim>\<open>constants.js\<close>,
  for the sample tables. The comment on the field \<^verbatim>\<open>actionRound\<close> gives its entries:
  0 is pre-flop, 1 flop, 2 turn, 3 river.
\<close>

definition standard_ACTION_ROUNDS :: "int \<Rightarrow> string option" where
  "standard_ACTION_ROUNDS i =
     (if i = 0 then Some ''pre-flop'' else if i = 1 then Some ''flop''
      else if i = 2 then Some ''turn'' else if i = 3 then Some ''river'' else None)"

text \<open>A stand-in for \<^verbatim>\<open>pickBestHandRanks\<close> when all hands tie: every rank object given wins.\<close>

definition allTied :: "'r handRank option list \<Rightarrow> 'r handRank list" where
  "allTied ranks = List.map_filter (\<lambda>r. r) ranks"

text \<open>Two players have sat down at the initialized table; no hand has started.\<close>

definition seated_table :: "nat game" where
  "seated_table = table_200_1_2\<lparr>players := [seat 0 20000, seat 1 20000]\<rparr>"

text \<open>The same table with a bet of 200 to beat and a minimum raise of 200.\<close>

definition raise_table :: "nat game" where
  "raise_table = seated_table\<lparr>previousBet := 200, minRaise := 200\<rparr>"

text \<open>
  River betting in progress: seat 0 has bet 200, seat 1 is to act. 800 were carried over
  from the earlier rounds.
\<close>

definition river_table :: "nat game" where
  "river_table = table_200_1_2\<lparr>
     players := [(seat 0 19400)\<lparr>actionState := ''raise'', potCommitment := 200\<rparr>,
                 (seat 1 19600)\<lparr>actionState := '' ''\<rparr>],
     pots := [new_Pot\<lparr>prevARsAmount := 800, currARAmount := 200, potentialWinners := [0, 1]\<rparr>],
     actionRound := 3, turnIdx := Idx 1, previousBet := 200, minRaise := 200\<rparr>"

text \<open>Seat 0 is all-in, seat 1 is not and is a potential winner of the only pot.\<close>

definition heads_up_all_in_table :: "nat game" where
  "heads_up_all_in_table = table_200_1_2\<lparr>
     players := [(seat 0 0)\<lparr>isAllIn := True, actionState := ''raise''\<rparr>,
                 (seat 1 0)\<lparr>actionState := ''call''\<rparr>],
     pots := [new_Pot\<lparr>prevARsAmount := 40000, potentialWinners := [0, 1]\<rparr>],
     actionRound := 1, turnIdx := Idx 1\<rparr>"

text \<open>
  Seat 0 is all-in, seat 1 is not. A closed pot has seat 0 as its only potential winner;
  seat 1 is a potential winner of the open pot.
\<close>

definition closed_pot_table :: "nat game" where
  "closed_pot_table = table_200_1_2\<lparr>
     players := [(seat 0 0)\<lparr>isAllIn := True, actionState := '' ''\<rparr>,
                 (seat 1 18000)\<lparr>actionState := '' ''\<rparr>],
     pots := [new_Pot\<lparr>open := False, prevARsAmount := 18000, potentialWinners := [0]\<rparr>,
              new_Pot\<lparr>prevARsAmount := 4000, potentialWinners := [0, 1]\<rparr>],
     actionRound := 2, turnIdx := Idx 1\<rparr>"

text \<open>Three seats; seat 0 holds the turn, seat 1 has folded, seat 2 is still to act.\<close>

definition three_seat_table :: "nat game" where
  "three_seat_table = table_200_1_2\<lparr>
     players := [(seat 0 19800)\<lparr>actionState := ''raise''\<rparr>,
                 (seat 1 20000)\<lparr>inGame := False, actionState := ''fold''\<rparr>,
                 (seat 2 20000)],
     pots := [new_Pot\<lparr>currARAmount := 200, potentialWinners := [0, 2]\<rparr>],
     actionRound := 0, turnIdx := Idx 0, previousBet := 200, minRaise := 200\<rparr>"

text \<open>
  The flop betting has ended: seat 0 raised all-in and seat 1 called. A pot closed earlier
  holds 1000; the open pot carries 400 and holds the 20000 of this round.
\<close>
definition all_in_called_table :: "nat game" where
  "all_in_called_table = table_200_1_2\<lparr>
     players := [(seat 0 0)\<lparr>isAllIn := True, actionState := ''raise'', potCommitment := 10000\<rparr>,
                 (seat 1 8600)\<lparr>actionState := ''call'', potCommitment := 10000\<rparr>],
     pots := [new_Pot\<lparr>open := False, prevARsAmount := 1000, potentialWinners := [0, 1]\<rparr>,
              new_Pot\<lparr>prevARsAmount := 400, currARAmount := 20000, playerCommitment := 10000,
                       history := [(0, 10000), (1, 10000)], potentialWinners := [0, 1]\<rparr>],
     actionRound := 1, turnIdx := Idx 0, previousBet := 10000, minRaise := 10000\<rparr>"

text \<open>
  Four players, pre-flop: seat 1 posted the small blind of 100, seat 2 the big blind of
  200, and then seats 3, 0 and 1 folded. The blinds sit in the pot as commitments of the
  current round.
\<close>
definition fold_out_table :: "nat game" where
  "fold_out_table = table_200_1_2\<lparr>
     players := [(seat 0 20000)\<lparr>inGame := False, actionState := ''fold''\<rparr>,
                 (seat 1 19900)\<lparr>inGame := False, actionState := ''fold'', potCommitment := 100\<rparr>,
                 (seat 2 19800)\<lparr>actionState := ''BB'', potCommitment := 200\<rparr>,
                 (seat 3 20000)\<lparr>inGame := False, actionState := ''fold''\<rparr>],
     pots := [new_Pot\<lparr>currARAmount := 300, playerCommitment := 200,
                       history := [(1, 100), (2, 200)], potentialWinners := [2]\<rparr>],
     actionRound := 0, turnIdx := Idx 1, smallBlindIdx := 1, bigBlindIdx := 2,
     previousBet := 200, minRaise := 200\<rparr>"

text \<open>The same table after \<open>organizePotsAfterRoundEnded\<close>.\<close>

definition organized_fold_out_table :: "nat game" where
  "organized_fold_out_table =
     snd (organizePotsAfterRoundEnded standard_ACTION_ROUNDS fold_out_table)"

text \<open>
  A stand-in for the class \<^verbatim>\<open>Player\<close> in the sample runs: each method only records its
  action tag on the current player.
\<close>

definition tagCurrentPlayer :: "string \<Rightarrow> 'r game \<Rightarrow> (error + unit) \<times> 'r game" where
  "tagCurrentPlayer tag g =
     (case turnIdx g of
        Idx i \<Rightarrow>
          if i < length (players g)
          then (Inr (), g\<lparr>players := (players g)[i := (players g ! i)\<lparr>actionState := tag\<rparr>]\<rparr>)
          else (Inl TypeError, g)
      | NaNIdx \<Rightarrow> (Inl TypeError, g))"

definition tagging_methods :: "'r playerMethods" where
  "tagging_methods = \<lparr> player_allIn = tagCurrentPlayer ''raise'',
     player_call = tagCurrentPlayer ''call'',
     player_raise = (\<lambda>amount. tagCurrentPlayer ''raise''),
     player_fold = tagCurrentPlayer ''fold'',
     player_check = tagCurrentPlayer ''check'' \<rparr>"

text \<open>The three-seat table with the turn on seat 1, who has folded.\<close>

definition folded_turn_table :: "nat game" where
  "folded_turn_table = three_seat_table\<lparr>turnIdx := Idx 1\<rparr>"



section \<open>Results\<close>

subsection \<open>Buy-in and blinds\<close>

lemma js_rem_200_100: "js_rem 200 100 = Some 0"
  by (simp add: js_rem_def js_trunc_def)

lemma table_200_1_2_eq:
  "table_200_1_2 = new_PokerGame\<lparr>buyIn := 20000, smallBlind := 100, bigBlind := 200,
     initialized := True\<rparr>"
  by (simp add: table_200_1_2_def setBigBlind_def setSmallBlind_def setBuyIn_def
      new_PokerGame_def js_rem_200_100)

text \<open>
  Claim C8 (immutability of buy-in and blinds once initialized). The setters carry no
  guard on \<open>initialized\<close>: on the initialized table above, \<open>setBuyIn\<close> succeeds and
  replaces the buy-in, and \<open>setSmallBlind\<close> succeeds, replaces the small blind and
  puts the big blind back to \<open>-1\<close> while the game stays initialized.
\<close>

theorem setters_change_values_after_initialization:
  "initialized table_200_1_2 \<and> buyIn table_200_1_2 = 20000
   \<and> smallBlind table_200_1_2 = 100 \<and> bigBlind table_200_1_2 = 200
   \<and> fst (setBuyIn 100000 40000 table_200_1_2) = True
   \<and> buyIn (snd (setBuyIn 100000 40000 table_200_1_2)) = 40000
   \<and> fst (setSmallBlind 50 table_200_1_2) = True
   \<and> smallBlind (snd (setSmallBlind 50 table_200_1_2)) = 50
   \<and> bigBlind (snd (setSmallBlind 50 table_200_1_2)) = - 1
   \<and> initialized (snd (setSmallBlind 50 table_200_1_2))
   \<and> fst (setBigBlind 400 table_200_1_2) = True
   \<and> bigBlind (snd (setBigBlind 400 table_200_1_2)) = 400"
  by (simp add: table_200_1_2_eq setBuyIn_def setSmallBlind_def setBigBlind_def
      new_PokerGame_def js_rem_def js_trunc_def)

subsection \<open>Arithmetic and counting\<close>

lemma js_trunc_of_int: "js_trunc (of_int k) = k"
  by (simp add: js_trunc_def)

lemma js_rem_zero_iff: "js_rem a b = Some 0 \<longleftrightarrow> b \<noteq> 0 \<and> (\<exists>k::int. a = of_int k * b)"
proof (cases "b = 0")
  case True
  then show ?thesis by (simp add: js_rem_def)
next
  case False
  show ?thesis
  proof
    assume "js_rem a b = Some 0"
    with False have "a = of_int (js_trunc (a / b)) * b"
      by (simp add: js_rem_def mult.commute)
    with False show "b \<noteq> 0 \<and> (\<exists>k::int. a = of_int k * b)" by blast
  next
    assume "b \<noteq> 0 \<and> (\<exists>k::int. a = of_int k * b)"
    then obtain k :: int where k: "a = of_int k * b" by blast
    with False have "a / b = of_int k" by simp
    then have "js_trunc (a / b) = k" by (simp add: js_trunc_of_int)
    with False k show "js_rem a b = Some 0" by (simp add: js_rem_def)
  qed
qed

lemma foldl_count:
  "foldl (\<lambda>acc x. if P x then acc + 1 else acc) (a::nat) xs = a + length (filter P xs)"
  by (induction xs arbitrary: a) auto

lemma allInPlayersCounter_eq: "allInPlayersCounter g = length (filter isAllIn (players g))"
  by (simp add: allInPlayersCounter_def foldl_count)

lemma numPlayersInGame_eq: "numPlayersInGame g = length (filter inGame (players g))"
  by (simp add: numPlayersInGame_def foldl_count)

lemma length_filter_split:
  "length (filter P xs)
     = length (filter (\<lambda>x. P x \<and> Q x) xs) + length (filter (\<lambda>x. P x \<and> \<not> Q x) xs)"
  by (induction xs) auto

lemma find_Some_in_filter: "find P xs = Some x \<Longrightarrow> x \<in> set (filter P xs)"
  by (induction xs) (auto split: if_splits)

lemma find_None_filter: "find P xs = None \<Longrightarrow> filter P xs = []"
  by (induction xs) (auto split: if_splits)

subsection \<open>Raise legality\<close>

lemma canCurrentPlayerRaiseBy_eq:
  assumes "initialized g" and "currentPlayer g = Some p"
  shows "canCurrentPlayerRaiseBy cents g =
           Inr (allowRaise p \<and>
                (cents = stack p \<or>
                 (smallBlind g \<noteq> 0 \<and> (\<exists>k::int. cents = of_int k * smallBlind g))
                 \<and> previousBet g + minRaise g \<le> cents
                 \<and> cents \<le> stack p + potCommitment p))"
  using assms
  by (auto simp add: canCurrentPlayerRaiseBy_def throwIfNotInitialized_def js_rem_zero_iff)

lemma seated_table_simps:
  "initialized seated_table" "currentPlayer seated_table = Some (seat 0 20000)"
  "smallBlind seated_table = 100" "previousBet seated_table = 0" "minRaise seated_table = 0"
  by (simp_all add: seated_table_def table_200_1_2_eq new_PokerGame_def currentPlayer_def
      js_nth_def)

lemma raise_table_simps:
  "initialized raise_table" "currentPlayer raise_table = Some (seat 0 20000)"
  "smallBlind raise_table = 100" "previousBet raise_table = 200" "minRaise raise_table = 200"
  by (simp_all add: raise_table_def seated_table_def table_200_1_2_eq new_PokerGame_def
      currentPlayer_def js_nth_def)

text \<open>
  Claim C3, as the code has it. For the player holding the turn in an initialized game,
  \<open>canCurrentPlayerRaiseBy amount\<close> returns true exactly when the player's
  raise-eligibility flag is set and either the amount equals the player's stack, or the
  amount is an integer multiple of the (non-zero) small blind, is at least
  \<open>previousBet + minRaise\<close> and at most the stack plus the current commitment. The
  multiple is not required to be positive. With \<open>previousBet = 200\<close>, \<open>minRaise = 200\<close>
  and \<open>smallBlind = 100\<close>, a raise to 300 is illegal unless 300 is the whole stack, a
  raise to 400 is legal for an eligible player who can cover it, and a raise of the
  whole stack is legal for every eligible player.
\<close>

theorem raise_by_legality:
  assumes "initialized g" and "currentPlayer g = Some p"
  shows "canCurrentPlayerRaiseBy cents g =
           Inr (allowRaise p \<and>
                (cents = stack p \<or>
                 (smallBlind g \<noteq> 0 \<and> (\<exists>k::int. cents = of_int k * smallBlind g))
                 \<and> previousBet g + minRaise g \<le> cents
                 \<and> cents \<le> stack p + potCommitment p))
         \<and> (previousBet g = 200 \<and> minRaise g = 200 \<and> smallBlind g = 100 \<and> stack p \<noteq> 300
              \<longrightarrow> canCurrentPlayerRaiseBy 300 g = Inr False)
         \<and> (previousBet g = 200 \<and> minRaise g = 200 \<and> smallBlind g = 100 \<and> allowRaise p
              \<and> 400 \<le> stack p + potCommitment p
              \<longrightarrow> canCurrentPlayerRaiseBy 400 g = Inr True)
         \<and> (allowRaise p \<longrightarrow> canCurrentPlayerRaiseBy (stack p) g = Inr True)"
proof -
  have m: "\<exists>k::int. (400::rat) = of_int k * 100"
    by (rule exI [of _ 4]) simp
  show ?thesis
    unfolding canCurrentPlayerRaiseBy_eq [OF assms] using m by simp
qed

theorem raise_by_legality_witness:
  "canCurrentPlayerRaiseBy 300 raise_table = Inr False
   \<and> canCurrentPlayerRaiseBy 400 raise_table = Inr True
   \<and> canCurrentPlayerRaiseBy 20000 raise_table = Inr True"
  using raise_by_legality [OF raise_table_simps(1) raise_table_simps(2), of 400]
  by (simp add: raise_table_simps seat_def)

text \<open>
  The claim asks for a positive multiple. On the table where two players have just sat
  down, nothing is to beat (\<open>previousBet = minRaise = 0\<close>), and a raise by 0 is accepted
  although 0 is neither the stack nor a positive amount.
\<close>

theorem raise_by_zero_accepted:
  "initialized seated_table
   \<and> currentPlayer seated_table = Some (seat 0 20000)
   \<and> canCurrentPlayerRaiseBy 0 seated_table = Inr True
   \<and> \<not> (allowRaise (seat 0 20000)
         \<and> (0 = stack (seat 0 20000)
            \<or> ((0::rat) < 0 \<and> (\<exists>k::int. 0 = of_int k * smallBlind seated_table))
              \<and> previousBet seated_table + minRaise seated_table \<le> 0
              \<and> 0 \<le> stack (seat 0 20000) + potCommitment (seat 0 20000)))"
proof -
  have m: "\<exists>k::int. (0::rat) = of_int k * 100"
    by (rule exI [of _ 0]) simp
  have "canCurrentPlayerRaiseBy 0 seated_table = Inr True"
    unfolding canCurrentPlayerRaiseBy_eq [OF seated_table_simps(1) seated_table_simps(2)]
    using m by (simp add: seated_table_simps seat_def)
  then show ?thesis
    by (simp add: seated_table_simps seat_def)
qed

subsection \<open>What the settlement can throw\<close>

lemma length_filter_mono:
  "(\<And>x. x \<in> set xs \<Longrightarrow> P x \<Longrightarrow> Q x) \<Longrightarrow> length (filter P xs) \<le> length (filter Q xs)"
  by (induction xs) auto

lemma allIn_scenario_returns:
  assumes "initialized g"
  shows "\<exists>b. actionRoundEndedViaAllInScenario g = Inr b"
proof (cases "find (\<lambda>player. inGame player \<and> \<not> isAllIn player) (players g)")
  case (Some q)
  with assms show ?thesis
    by (auto simp add: actionRoundEndedViaAllInScenario_def throwIfNotInitialized_def)
next
  case None
  then have "filter (\<lambda>player. inGame player \<and> \<not> isAllIn player) (players g) = []"
    by (rule find_None_filter)
  then have "\<And>x. x \<in> set (players g) \<Longrightarrow> inGame x \<Longrightarrow> isAllIn x"
    by (auto simp add: filter_empty_conv)
  then have "length (filter inGame (players g)) \<le> length (filter isAllIn (players g))"
    by (rule length_filter_mono)
  then have "int (allInPlayersCounter g) \<noteq> int (numPlayersInGame g) - 1"
    by (simp add: allInPlayersCounter_eq numPlayersInGame_eq)
  with assms show ?thesis
    by (auto simp add: actionRoundEndedViaAllInScenario_def throwIfNotInitialized_def)
qed

lemma assignWinHandRanks_error:
  "assignWinHandRanks pk ps pts = (Inl e, pts') \<Longrightarrow> e = TypeError"
  by (induction pts arbitrary: pts') (auto split: if_splits prod.splits)

lemma creditWinners_error:
  "creditWinners w rs ps = (Inl e, ps') \<Longrightarrow> e = TypeError"
  by (induction rs arbitrary: ps ps') (auto split: if_splits prod.splits sum.splits)

lemma settlePots_error:
  "settlePots pts ps = (Inl e, ps') \<Longrightarrow> e = TypeError"
proof (induction pts arbitrary: ps ps')
  case Nil
  then show ?case by simp
next
  case (Cons pot rest)
  then show ?case
    by (auto simp add: Let_def split: prod.splits sum.splits dest: creditWinners_error)
qed

lemma validateInActionRound_cases:
  "validateInActionRound AR ev g =
     (if \<not> initialized g then Inl NotInitialized
      else if actionRoundStr AR g \<noteq> Some ev then Inl (CannotAtThisPoint ev) else Inr ())"
  by (simp add: validateInActionRound_def throwIfNotInitialized_def)

lemma showdown_after_guard:
  assumes "initialized g" and "actionRoundStr AR g = Some ''river''"
    and "fst (getShowdownInfoAndAssignWinnings AR bh pk g) = Inl e"
  shows "e = TypeError"
proof -
  obtain b where b: "actionRoundEndedViaAllInScenario g = Inr b"
    using allIn_scenario_returns [OF assms(1)] by blast
  show ?thesis
    using assms b
    by (auto simp add: getShowdownInfoAndAssignWinnings_def validateInActionRound_cases Let_def
        split: prod.splits sum.splits
        dest: assignWinHandRanks_error settlePots_error)
qed

lemma river_table_facts:
  "initialized river_table"
  "actionRoundStr standard_ACTION_ROUNDS river_table = Some ''river''"
  "dealerRoundEnded river_table = False"
  "actionRoundEndedViaAllInScenario river_table = Inr False"
  "actionRoundEnded standard_ACTION_ROUNDS river_table = Inr False"
  "fst (getShowdownInfoAndAssignWinnings standard_ACTION_ROUNDS (\<lambda>_. 0) allTied river_table)
     = Inr [\<lparr>winnings = Some 400, winners = [0, 1]\<rparr>]"
  by code_simp+

subsection \<open>The all-in scenario\<close>

text \<open>
  Claim C4, as the code has it. In an initialized game whose all-in seats are all in the
  hand, \<open>actionRoundEndedViaAllInScenario\<close> returns true exactly when the number of
  all-in in-hand players equals the number of in-hand players, or equals that number
  minus one and the in-hand player who is not all-in is a potential winner of every pot,
  open or closed.
\<close>

theorem all_in_scenario_every_pot:
  assumes init: "initialized g"
    and sub: "\<forall>p \<in> set (players g). isAllIn p \<longrightarrow> inGame p"
  shows "actionRoundEndedViaAllInScenario g =
     Inr (length (filter (\<lambda>p. inGame p \<and> isAllIn p) (players g)) = length (filter inGame (players g))
          \<or> (int (length (filter (\<lambda>p. inGame p \<and> isAllIn p) (players g)))
               = int (length (filter inGame (players g))) - 1
             \<and> (\<forall>p \<in> set (players g). inGame p \<and> \<not> isAllIn p \<longrightarrow>
                  (\<forall>pot \<in> set (pots g). player_id p \<in> set (potentialWinners pot)))))"
proof -
  let ?A = "length (filter (\<lambda>p. inGame p \<and> isAllIn p) (players g))"
  let ?N = "length (filter inGame (players g))"
  let ?Q = "\<lambda>p. inGame p \<and> \<not> isAllIn p"
  have A: "allInPlayersCounter g = ?A"
    unfolding allInPlayersCounter_eq
    by (rule arg_cong [where f = length], rule filter_cong) (use sub in auto)
  have N: "numPlayersInGame g = ?N" by (rule numPlayersInGame_eq)
  have split: "?N = ?A + length (filter ?Q (players g))"
    by (rule length_filter_split)
  show ?thesis
  proof (cases "?A = ?N")
    case True
    with init A N show ?thesis
      by (simp add: actionRoundEndedViaAllInScenario_def throwIfNotInitialized_def)
  next
    case ne: False
    show ?thesis
    proof (cases "int ?A = int ?N - 1")
      case False
      with ne init A N show ?thesis
        by (simp add: actionRoundEndedViaAllInScenario_def throwIfNotInitialized_def)
    next
      case True
      with split have one: "length (filter ?Q (players g)) = 1" by linarith
      then obtain q where q: "filter ?Q (players g) = [q]"
        by (cases "filter ?Q (players g)") auto
      have "find ?Q (players g) \<noteq> None"
        using find_None_filter [of ?Q "players g"] q by auto
      then obtain q' where f: "find ?Q (players g) = Some q'" by blast
      from find_Some_in_filter [OF f] q have "q' = q" by simp
      have uniq: "\<And>p. p \<in> set (players g) \<Longrightarrow> ?Q p \<Longrightarrow> p = q"
      proof -
        fix p assume "p \<in> set (players g)" "?Q p"
        then have "p \<in> set (filter ?Q (players g))" by simp
        with q show "p = q" by simp
      qed
      have qin: "q \<in> set (players g) \<and> ?Q q"
      proof -
        have "q \<in> set (filter ?Q (players g))" using q by simp
        then show ?thesis by simp
      qed
      have "(\<forall>p \<in> set (players g). ?Q p \<longrightarrow>
               (\<forall>pot \<in> set (pots g). player_id p \<in> set (potentialWinners pot)))
            \<longleftrightarrow> (\<forall>pot \<in> set (pots g). player_id q \<in> set (potentialWinners pot))"
        using uniq qin by blast
      with ne True init A N f \<open>q' = q\<close> show ?thesis
        by (simp add: actionRoundEndedViaAllInScenario_def throwIfNotInitialized_def
            playerIdxInPotentialWinners_def list_all_iff)
    qed
  qed
qed

lemma heads_up_all_in_table_eq:
  "initialized heads_up_all_in_table"
  "players heads_up_all_in_table =
     [(seat 0 0)\<lparr>isAllIn := True, actionState := ''raise''\<rparr>, (seat 1 0)\<lparr>actionState := ''call''\<rparr>]"
  "pots heads_up_all_in_table = [new_Pot\<lparr>prevARsAmount := 40000, potentialWinners := [0, 1]\<rparr>]"
  by (simp_all add: heads_up_all_in_table_def table_200_1_2_eq new_PokerGame_def)

theorem all_in_scenario_every_pot_witness:
  "actionRoundEndedViaAllInScenario heads_up_all_in_table = Inr True"
proof -
  have sub: "\<forall>p \<in> set (players heads_up_all_in_table). isAllIn p \<longrightarrow> inGame p"
    by (simp add: heads_up_all_in_table_eq seat_def)
  show ?thesis
    using all_in_scenario_every_pot [OF heads_up_all_in_table_eq(1) sub]
    by (simp add: heads_up_all_in_table_eq seat_def new_Pot_def)
qed

text \<open>
  The claim looks at the open pots only. On \<open>closed_pot_table\<close> one of two in-hand
  players is all-in, and the other one, seat 1, is a potential winner of every open pot;
  the detector still answers false, because seat 1 is not a potential winner of the
  closed pot.
\<close>

theorem all_in_scenario_closed_pot:
  "initialized closed_pot_table
   \<and> int (length (filter (\<lambda>p. inGame p \<and> isAllIn p) (players closed_pot_table)))
       = int (length (filter inGame (players closed_pot_table))) - 1
   \<and> map player_id (filter (\<lambda>p. inGame p \<and> \<not> isAllIn p) (players closed_pot_table)) = [1]
   \<and> list_all (\<lambda>pot. 1 \<in> set (potentialWinners pot))
        (filter (\<lambda>pot. open pot) (pots closed_pot_table))
   \<and> actionRoundEndedViaAllInScenario closed_pot_table = Inr False"
  by code_simp

subsection \<open>The guard of the showdown\<close>

text \<open>
  Claim C10. The guard of \<open>getShowdownInfoAndAssignWinnings\<close> is
  \<open>validateInActionRound ''river''\<close>: it fails exactly when the game is not initialized
  or the current action round is not the river, and then the showdown throws that error
  and leaves the game as it was. Once the guard has passed, nothing else stops the
  settlement but a runtime \<open>TypeError\<close>; whether river betting has ended is never asked.
  On \<open>river_table\<close> no round-end condition holds (seat 1 still has to answer the bet of
  seat 0), and the showdown runs and pays out.
\<close>

theorem showdown_guard:
  "(validateInActionRound AR ''river'' g \<noteq> Inr ()
      \<longleftrightarrow> \<not> initialized g \<or> actionRoundStr AR g \<noteq> Some ''river'')
   \<and> (\<forall>e. validateInActionRound AR ''river'' g = Inl e
          \<longrightarrow> getShowdownInfoAndAssignWinnings AR bh pk g = (Inl e, g))
   \<and> (\<forall>e. validateInActionRound AR ''river'' g = Inr ()
            \<and> fst (getShowdownInfoAndAssignWinnings AR bh pk g) = Inl e \<longrightarrow> e = TypeError)
   \<and> initialized river_table
   \<and> actionRoundStr standard_ACTION_ROUNDS river_table = Some ''river''
   \<and> dealerRoundEnded river_table = False
   \<and> actionRoundEndedViaAllInScenario river_table = Inr False
   \<and> actionRoundEnded standard_ACTION_ROUNDS river_table = Inr False
   \<and> fst (getShowdownInfoAndAssignWinnings standard_ACTION_ROUNDS (\<lambda>_. 0) allTied river_table)
       = Inr [\<lparr>winnings = Some 400, winners = [0, 1]\<rparr>]"
proof -
  have 1: "validateInActionRound AR ''river'' g \<noteq> Inr ()
      \<longleftrightarrow> \<not> initialized g \<or> actionRoundStr AR g \<noteq> Some ''river''"
    by (simp add: validateInActionRound_cases)
  have 2: "\<forall>e. validateInActionRound AR ''river'' g = Inl e
          \<longrightarrow> getShowdownInfoAndAssignWinnings AR bh pk g = (Inl e, g)"
    by (simp add: getShowdownInfoAndAssignWinnings_def)
  have 3: "\<forall>e. validateInActionRound AR ''river'' g = Inr ()
            \<and> fst (getShowdownInfoAndAssignWinnings AR bh pk g) = Inl e \<longrightarrow> e = TypeError"
    using showdown_after_guard [of g AR bh pk]
    by (auto simp add: validateInActionRound_cases split: if_splits)
  from 1 2 3 river_table_facts show ?thesis by blast
qed

theorem showdown_guard_witness:
  "validateInActionRound standard_ACTION_ROUNDS ''river'' river_table = Inr ()
   \<and> validateInActionRound standard_ACTION_ROUNDS ''river'' (new_PokerGame :: nat game) \<noteq> Inr ()"
  using showdown_guard [of standard_ACTION_ROUNDS river_table "\<lambda>_. 0" allTied]
    showdown_guard [of standard_ACTION_ROUNDS "new_PokerGame :: nat game" "\<lambda>_. 0" allTied]
  by (simp add: new_PokerGame_def)

subsection \<open>Advancing the turn\<close>








subsection \<open>Organizing the pots\<close>

lemma hasAllInPlayer_iff:
  "hasAllInPlayer ps pot \<longleftrightarrow> (\<exists>w \<in> set (potentialWinners pot). w < length ps \<and> isAllIn (ps ! w))"
  by (auto simp add: hasAllInPlayer_def list_ex_iff js_nth_def split: option.splits if_splits)

text \<open>
  Claim C9. \<open>organizePotsAfterRoundEnded\<close> throws "round has not ended" and changes
  nothing when the dealer round has not ended, the all-in scenario does not hold and the
  action round has not ended. When one of the three holds (in the order the guard asks
  them; in an initialized game the end of the action round is enough), it returns, and
  pot by pot: a pot that was closed is left exactly as it was; a pot that was open is
  closed if and only if one of its potential winners is an all-in player, its current
  round amount is added to its carried-over amount, and its current round amount, its
  per-round commitment and its per-round commitment map are cleared. Nothing but the pots
  changes.
\<close>

theorem organize_pots_after_round_ended:
  "(\<not> dealerRoundEnded g \<and> actionRoundEndedViaAllInScenario g = Inr False
      \<and> actionRoundEnded AR g = Inr False
      \<longrightarrow> organizePotsAfterRoundEnded AR g = (Inl RoundNotEnded, g))
   \<and> (dealerRoundEnded g \<or> actionRoundEndedViaAllInScenario g = Inr True
       \<or> (actionRoundEndedViaAllInScenario g = Inr False \<and> actionRoundEnded AR g = Inr True)
       \<or> (initialized g \<and> actionRoundEnded AR g = Inr True)
      \<longrightarrow> (\<exists>pots'. organizePotsAfterRoundEnded AR g = (Inr (), g\<lparr>pots := pots'\<rparr>)
             \<and> length pots' = length (pots g)
             \<and> (\<forall>i<length (pots g).
                   (\<not> open (pots g ! i) \<longrightarrow> pots' ! i = pots g ! i)
                   \<and> (open (pots g ! i) \<longrightarrow>
                        (\<not> open (pots' ! i) \<longleftrightarrow>
                           (\<exists>w \<in> set (potentialWinners (pots g ! i)).
                               w < length (players g) \<and> isAllIn (players g ! w)))
                        \<and> prevARsAmount (pots' ! i)
                            = prevARsAmount (pots g ! i) + currARAmount (pots g ! i)
                        \<and> currARAmount (pots' ! i) = 0
                        \<and> playerCommitment (pots' ! i) = 0
                        \<and> history (pots' ! i) = []
                        \<and> potentialWinners (pots' ! i) = potentialWinners (pots g ! i)
                        \<and> winHandRanks (pots' ! i) = winHandRanks (pots g ! i)))))"
proof (intro conjI impI)
  assume "\<not> dealerRoundEnded g \<and> actionRoundEndedViaAllInScenario g = Inr False
      \<and> actionRoundEnded AR g = Inr False"
  then show "organizePotsAfterRoundEnded AR g = (Inl RoundNotEnded, g)"
    by (simp add: organizePotsAfterRoundEnded_def orElse_def)
next
  assume ended: "dealerRoundEnded g \<or> actionRoundEndedViaAllInScenario g = Inr True
       \<or> (actionRoundEndedViaAllInScenario g = Inr False \<and> actionRoundEnded AR g = Inr True)
       \<or> (initialized g \<and> actionRoundEnded AR g = Inr True)"
  let ?pots' = "map (\<lambda>pot. if open pot then organizePot (players g) pot else pot) (pots g)"
  have guard: "orElse (Inr (dealerRoundEnded g))
     (orElse (actionRoundEndedViaAllInScenario g) (actionRoundEnded AR g)) = Inr True"
  proof (cases "initialized g")
    case True
    then obtain b where "actionRoundEndedViaAllInScenario g = Inr b"
      using allIn_scenario_returns by blast
    with ended show ?thesis by (auto simp add: orElse_def)
  next
    case False
    with ended show ?thesis by (auto simp add: orElse_def)
  qed
  have run: "organizePotsAfterRoundEnded AR g = (Inr (), g\<lparr>pots := ?pots'\<rparr>)"
    using guard by (simp add: organizePotsAfterRoundEnded_def)
  have each: "\<forall>i<length (pots g).
                   (\<not> open (pots g ! i) \<longrightarrow> ?pots' ! i = pots g ! i)
                   \<and> (open (pots g ! i) \<longrightarrow>
                        (\<not> open (?pots' ! i) \<longleftrightarrow>
                           (\<exists>w \<in> set (potentialWinners (pots g ! i)).
                               w < length (players g) \<and> isAllIn (players g ! w)))
                        \<and> prevARsAmount (?pots' ! i)
                            = prevARsAmount (pots g ! i) + currARAmount (pots g ! i)
                        \<and> currARAmount (?pots' ! i) = 0
                        \<and> playerCommitment (?pots' ! i) = 0
                        \<and> history (?pots' ! i) = []
                        \<and> potentialWinners (?pots' ! i) = potentialWinners (pots g ! i)
                        \<and> winHandRanks (?pots' ! i) = winHandRanks (pots g ! i))"
    by (simp add: organizePot_def hasAllInPlayer_iff)
  show "\<exists>pots'. organizePotsAfterRoundEnded AR g = (Inr (), g\<lparr>pots := pots'\<rparr>)
             \<and> length pots' = length (pots g)
             \<and> (\<forall>i<length (pots g).
                   (\<not> open (pots g ! i) \<longrightarrow> pots' ! i = pots g ! i)
                   \<and> (open (pots g ! i) \<longrightarrow>
                        (\<not> open (pots' ! i) \<longleftrightarrow>
                           (\<exists>w \<in> set (potentialWinners (pots g ! i)).
                               w < length (players g) \<and> isAllIn (players g ! w)))
                        \<and> prevARsAmount (pots' ! i)
                            = prevARsAmount (pots g ! i) + currARAmount (pots g ! i)
                        \<and> currARAmount (pots' ! i) = 0
                        \<and> playerCommitment (pots' ! i) = 0
                        \<and> history (pots' ! i) = []
                        \<and> potentialWinners (pots' ! i) = potentialWinners (pots g ! i)
                        \<and> winHandRanks (pots' ! i) = winHandRanks (pots g ! i)))"
    by (rule exI [of _ ?pots'], intro conjI, rule run, simp, rule each)
qed

lemma all_in_called_table_facts:
  "actionRoundEndedViaAllInScenario all_in_called_table = Inr True"
  "length (pots all_in_called_table) = 2"
  "open (pots all_in_called_table ! 0) = False"
  "open (pots all_in_called_table ! Suc 0) = True"
  "prevARsAmount (pots all_in_called_table ! Suc 0) = 400"
  "currARAmount (pots all_in_called_table ! Suc 0) = 20000"
  "potentialWinners (pots all_in_called_table ! Suc 0) = [0, Suc 0]"
  "length (players all_in_called_table) = 2"
  "isAllIn (players all_in_called_table ! 0)"
  by code_simp+

theorem organize_pots_after_round_ended_witness:
  "fst (organizePotsAfterRoundEnded standard_ACTION_ROUNDS all_in_called_table) = Inr ()
   \<and> length (pots (snd (organizePotsAfterRoundEnded standard_ACTION_ROUNDS all_in_called_table))) = 2
   \<and> pots (snd (organizePotsAfterRoundEnded standard_ACTION_ROUNDS all_in_called_table)) ! 0
       = pots all_in_called_table ! 0
   \<and> open (pots (snd (organizePotsAfterRoundEnded standard_ACTION_ROUNDS all_in_called_table)) ! 1)
       = False
   \<and> prevARsAmount
        (pots (snd (organizePotsAfterRoundEnded standard_ACTION_ROUNDS all_in_called_table)) ! 1)
       = 20400
   \<and> currARAmount
        (pots (snd (organizePotsAfterRoundEnded standard_ACTION_ROUNDS all_in_called_table)) ! 1)
       = 0
   \<and> organizePotsAfterRoundEnded standard_ACTION_ROUNDS river_table = (Inl RoundNotEnded, river_table)"
proof -
  let ?T = "all_in_called_table"
  from organize_pots_after_round_ended [of ?T standard_ACTION_ROUNDS]
    all_in_called_table_facts(1)
  obtain pots' where run: "organizePotsAfterRoundEnded standard_ACTION_ROUNDS ?T = (Inr (), ?T\<lparr>pots := pots'\<rparr>)"
    and len: "length pots' = length (pots ?T)"
    and each: "\<forall>i<length (pots ?T).
                   (\<not> open (pots ?T ! i) \<longrightarrow> pots' ! i = pots ?T ! i)
                   \<and> (open (pots ?T ! i) \<longrightarrow>
                        (\<not> open (pots' ! i) \<longleftrightarrow>
                           (\<exists>w \<in> set (potentialWinners (pots ?T ! i)).
                               w < length (players ?T) \<and> isAllIn (players ?T ! w)))
                        \<and> prevARsAmount (pots' ! i)
                            = prevARsAmount (pots ?T ! i) + currARAmount (pots ?T ! i)
                        \<and> currARAmount (pots' ! i) = 0
                        \<and> playerCommitment (pots' ! i) = 0
                        \<and> history (pots' ! i) = []
                        \<and> potentialWinners (pots' ! i) = potentialWinners (pots ?T ! i)
                        \<and> winHandRanks (pots' ! i) = winHandRanks (pots ?T ! i))"
    by blast
  have p0: "pots' ! 0 = pots ?T ! 0"
    using each [rule_format, of 0] by (simp add: all_in_called_table_facts)
  have p1: "\<not> open (pots' ! Suc 0)" "prevARsAmount (pots' ! Suc 0) = 20400"
    "currARAmount (pots' ! Suc 0) = 0"
    using each [rule_format, of "Suc 0"] by (simp_all add: all_in_called_table_facts)
  have thrown: "organizePotsAfterRoundEnded standard_ACTION_ROUNDS river_table = (Inl RoundNotEnded, river_table)"
    using organize_pots_after_round_ended [of river_table standard_ACTION_ROUNDS]
    by (simp add: river_table_facts)
  show ?thesis
    using run len p0 p1 thrown by (simp add: all_in_called_table_facts)
qed

subsection \<open>Fold-out settlement\<close>

lemma foldl_prevARsAmount:
  "foldl (\<lambda>acc pot. acc + prevARsAmount pot) a pts = a + sum_list (map prevARsAmount pts)"
  by (induction pts arbitrary: a) auto

lemma findIndex_first:
  "w < length xs \<Longrightarrow> P (xs ! w) \<Longrightarrow> (\<forall>i<w. \<not> P (xs ! i)) \<Longrightarrow> findIndex P xs = Some w"
proof (induction xs arbitrary: w)
  case Nil
  then show ?case by simp
next
  case (Cons x xs)
  show ?case
  proof (cases w)
    case 0
    with Cons.prems show ?thesis by simp
  next
    case (Suc w')
    have "\<not> P x" using Cons.prems(3) Suc by auto
    moreover have "\<forall>i<w'. \<not> P (xs ! i)"
    proof (intro allI impI)
      fix i assume "i < w'"
      then have "Suc i < w" using Suc by simp
      with Cons.prems(3) have "\<not> P ((x # xs) ! Suc i)" by blast
      then show "\<not> P (xs ! i)" by simp
    qed
    then have "findIndex P xs = Some w'"
      using Cons.IH [of w'] Cons.prems(1) Cons.prems(2) Suc by simp
    ultimately show ?thesis using Suc by simp
  qed
qed

text \<open>
  Claim C5, as the code has it. When the dealer round has ended in an initialized game
  and seat \<open>w\<close> is the only seat in the hand, \<open>getDealerRoundInfoAndAssignWinnings\<close>
  adds to that seat's stack the carried-over amounts of all pots, summed and not split,
  resets the pots to a single empty open pot, and returns the winner's id and these
  winnings. The commitments of the current round are not part of the winnings: they
  count once \<open>organizePotsAfterRoundEnded\<close> has added them to the carried-over
  amounts. No hand is ranked: the function has no access to the hand ranker, and no
  other field of a player or of the game changes. Called while the dealer round has not
  ended, it throws and changes nothing.
\<close>

theorem fold_out_settlement:
  "(initialized g \<and> dealerRoundEnded g \<and> w < length (players g) \<and> inGame (players g ! w)
      \<and> (\<forall>i<length (players g). i \<noteq> w \<longrightarrow> \<not> inGame (players g ! i))
     \<longrightarrow> getDealerRoundInfoAndAssignWinnings g =
           (Inr \<lparr>winnerIdx = player_id (players g ! w),
                 winnings_d = sum_list (map prevARsAmount (pots g))\<rparr>,
            g\<lparr>players := (players g)[w := (players g ! w)
                    \<lparr>stack := stack (players g ! w) + sum_list (map prevARsAmount (pots g))\<rparr>],
              pots := [new_Pot]\<rparr>))
   \<and> (\<not> dealerRoundEnded g
     \<longrightarrow> getDealerRoundInfoAndAssignWinnings g =
           (Inl (if initialized g then DealerRoundNotEnded else NotInitialized), g))"
proof (intro conjI impI)
  assume h: "initialized g \<and> dealerRoundEnded g \<and> w < length (players g) \<and> inGame (players g ! w)
      \<and> (\<forall>i<length (players g). i \<noteq> w \<longrightarrow> \<not> inGame (players g ! i))"
  then have "findIndex (\<lambda>player. inGame player) (players g) = Some w"
    by (intro findIndex_first) auto
  with h show "getDealerRoundInfoAndAssignWinnings g =
           (Inr \<lparr>winnerIdx = player_id (players g ! w),
                 winnings_d = sum_list (map prevARsAmount (pots g))\<rparr>,
            g\<lparr>players := (players g)[w := (players g ! w)
                    \<lparr>stack := stack (players g ! w) + sum_list (map prevARsAmount (pots g))\<rparr>],
              pots := [new_Pot]\<rparr>)"
    by (simp add: getDealerRoundInfoAndAssignWinnings_def throwIfNotInitialized_def
        foldl_prevARsAmount resetPots_def Let_def)
next
  assume "\<not> dealerRoundEnded g"
  then show "getDealerRoundInfoAndAssignWinnings g =
           (Inl (if initialized g then DealerRoundNotEnded else NotInitialized), g)"
    by (simp add: getDealerRoundInfoAndAssignWinnings_def throwIfNotInitialized_def)
qed

lemma fold_out_table_facts:
  "initialized fold_out_table" "dealerRoundEnded fold_out_table"
  "length (players fold_out_table) = 4"
  "map inGame (players fold_out_table) = [False, False, True, False]"
  "map stack (players fold_out_table) = [20000, 19900, 19800, 20000]"
  "map prevARsAmount (pots fold_out_table) = [0]"
  "map currARAmount (pots fold_out_table) = [300]"
  "fst (getDealerRoundInfoAndAssignWinnings fold_out_table) = Inr \<lparr>winnerIdx = 2, winnings_d = 0\<rparr>"
  "map stack (players (snd (getDealerRoundInfoAndAssignWinnings fold_out_table)))
     = [20000, 19900, 19800, 20000]"
  "pots (snd (getDealerRoundInfoAndAssignWinnings fold_out_table)) = [new_Pot]"
  "totalChips fold_out_table = 80000"
  "totalChips (snd (getDealerRoundInfoAndAssignWinnings fold_out_table)) = 79700"
  by code_simp+

lemma organized_fold_out_table_facts:
  "initialized organized_fold_out_table" "dealerRoundEnded organized_fold_out_table"
  "length (players organized_fold_out_table) = 4"
  "map inGame (players organized_fold_out_table) = [False, False, True, False]"
  "stack (players organized_fold_out_table ! 2) = 19800"
  "inGame (players organized_fold_out_table ! 2)"
  "player_id (players organized_fold_out_table ! 2) = 2"
  "map prevARsAmount (pots organized_fold_out_table) = [300]"
  by code_simp+

lemma organized_fold_out_table_others:
  "\<forall>i<length (players organized_fold_out_table).
      i \<noteq> 2 \<longrightarrow> \<not> inGame (players organized_fold_out_table ! i)"
  by code_simp

theorem fold_out_settlement_witness:
  "fst (getDealerRoundInfoAndAssignWinnings organized_fold_out_table)
     = Inr \<lparr>winnerIdx = 2, winnings_d = 300\<rparr>
   \<and> stack (players (snd (getDealerRoundInfoAndAssignWinnings organized_fold_out_table)) ! 2) = 20100
   \<and> pots (snd (getDealerRoundInfoAndAssignWinnings organized_fold_out_table)) = [new_Pot]
   \<and> getDealerRoundInfoAndAssignWinnings river_table = (Inl DealerRoundNotEnded, river_table)"
  using fold_out_settlement [of organized_fold_out_table 2]
    fold_out_settlement [of river_table 0]
    organized_fold_out_table_others
  by (simp add: organized_fold_out_table_facts river_table_facts)

text \<open>
  The claim counts the commitments of the current round among the winnings. On
  \<open>fold_out_table\<close> the dealer round has ended with seat 2 alone in the hand and 300 in
  the pot, all of it committed in the current round: the settlement returns winnings of
  0, leaves the stack of seat 2 as it was, and resets the pots.
\<close>

theorem fold_out_leaves_round_commitments:
  "initialized fold_out_table \<and> dealerRoundEnded fold_out_table
   \<and> map inGame (players fold_out_table) = [False, False, True, False]
   \<and> map prevARsAmount (pots fold_out_table) = [0]
   \<and> map currARAmount (pots fold_out_table) = [300]
   \<and> fst (getDealerRoundInfoAndAssignWinnings fold_out_table)
       = Inr \<lparr>winnerIdx = 2, winnings_d = 0\<rparr>
   \<and> map stack (players (snd (getDealerRoundInfoAndAssignWinnings fold_out_table)))
       = map stack (players fold_out_table)
   \<and> pots (snd (getDealerRoundInfoAndAssignWinnings fold_out_table)) = [new_Pot]"
  by (simp add: fold_out_table_facts)

subsection \<open>Rejected actions\<close>

text \<open>
  Claim C6. In an initialized game with a player at the turn, an action whose legality
  check fails is rejected before any method of the player runs: the game is returned
  unchanged, with an error that names the player's id and what was refused. A check, a
  call, a raise and a fold are reported under their own name. An all-in by a player who
  is not in the hand is reported as \<open>CannotFold\<close>: its message is the one of the fold
  branch, \<^verbatim>\<open>cannot fold bcz player not in game\<close>, so the error does not identify
  the attempted action.
\<close>

theorem rejected_action_reported:
  assumes "initialized g" and "currentPlayer g = Some p"
  shows "(\<not> allowCheck g \<longrightarrow>
            callCurrentPlayerAction M Check g = (Inl (CurrentPlayerCannot (player_id p) CannotCheck), g))
       \<and> (canCurrentPlayerCall g = Inr False \<longrightarrow>
            callCurrentPlayerAction M Call g = (Inl (CurrentPlayerCannot (player_id p) CannotCall), g))
       \<and> (\<not> allowRaise p \<longrightarrow>
            callCurrentPlayerAction M (Raise amount) g
              = (Inl (CurrentPlayerCannot (player_id p) CannotRaise), g))
       \<and> (allowRaise p \<and> canCurrentPlayerRaiseBy amount g = Inr False \<longrightarrow>
            callCurrentPlayerAction M (Raise amount) g
              = (Inl (CurrentPlayerCannot (player_id p) (CannotRaiseBy amount)), g))
       \<and> (\<not> inGame p \<longrightarrow>
            callCurrentPlayerAction M Fold g = (Inl (CurrentPlayerCannot (player_id p) CannotFold), g))
       \<and> (\<not> inGame p \<longrightarrow>
            callCurrentPlayerAction M AllIn g = (Inl (CurrentPlayerCannot (player_id p) CannotFold), g))"
  using assms
  by (simp add: canCurrentPlayerCheck_def canCurrentPlayerRaise_def throwIfNotInitialized_def
      cannot_def)

lemma folded_turn_table_facts:
  "initialized folded_turn_table"
  "currentPlayer folded_turn_table = Some ((seat 1 20000)\<lparr>inGame := False, actionState := ''fold''\<rparr>)"
  by code_simp+

theorem rejected_action_reported_witness:
  "callCurrentPlayerAction tagging_methods AllIn folded_turn_table
     = (Inl (CurrentPlayerCannot 1 CannotFold), folded_turn_table)
   \<and> callCurrentPlayerAction tagging_methods Fold folded_turn_table
     = (Inl (CurrentPlayerCannot 1 CannotFold), folded_turn_table)"
  using rejected_action_reported [OF folded_turn_table_facts, of tagging_methods]
  by (simp add: seat_def)

subsection \<open>Showdown settlement\<close>

















subsection \<open>Chip conservation\<close>






lemma validateNotInActionRound_cases:
  "validateNotInActionRound AR ev g =
     (if \<not> initialized g then Inl NotInitialized
      else if actionRoundStr AR g = Some ev then Inl (CannotAtThisPoint ev) else Inr ())"
  by (simp add: validateNotInActionRound_def throwIfNotInitialized_def)














end
